theory Spec2Isabelle
  imports Complex_Main "HOL-Library.Multiset"
begin

section \<open>delayedgram: a shallow embedding of main.py\<close>

text \<open>
  The development follows \<^verbatim>\<open>src/main.py\<close> function by function. Everything the
  Python does besides returning a value is explicit here: exceptions are the left
  summand of a result, the two queue directories, the calls made to the Instagram
  client, the printed lines and the sleeps are fields of a \<open>world\<close> record that every
  operation returns updated, and what the outside decides (the clock, the environment
  variables, the network) is read from an \<open>env\<close> record.
\<close>

subsection \<open>Exceptions\<close>

datatype exn =
    ValueError          \<comment> \<open>\<^verbatim>\<open>int(name)\<close> on a name that is no integer literal; \<^verbatim>\<open>time.sleep\<close> of a negative\<close>
  | FileNotFoundError   \<comment> \<open>a record directory, its \<^verbatim>\<open>meta.json\<close> or its \<^verbatim>\<open>ims\<close> is absent\<close>
  | FileExistsError     \<comment> \<open>\<^verbatim>\<open>os.makedirs\<close> on an existing directory\<close>
  | NotADirectoryError  \<comment> \<open>a path that runs through a regular file\<close>
  | ValidationError     \<comment> \<open>pydantic rejects the content of \<^verbatim>\<open>meta.json\<close>\<close>
  | TypeError           \<comment> \<open>\<^verbatim>\<open>None > datetime\<close>; a naive datetime against an aware one\<close>
  | OverflowError       \<comment> \<open>\<^verbatim>\<open>datetime + timedelta\<close> out of the range of dates\<close>
  | IndexError          \<comment> \<open>\<^verbatim>\<open>location_search(...)[0]\<close> on an empty answer\<close>
  | OSError             \<comment> \<open>any other failure of the operating system\<close>
  | ClientError         \<comment> \<open>any exception raised by the Instagram client\<close>

type_synonym 'a result = "exn + 'a"

subsection \<open>Time: \<^verbatim>\<open>dt.timedelta\<close>, \<^verbatim>\<open>dt.time\<close>, \<^verbatim>\<open>dt.datetime\<close>\<close>

text \<open>
  A \<^verbatim>\<open>timedelta\<close> is an exact number of microseconds (Python normalises its days,
  seconds and microseconds; comparison, sum and \<^verbatim>\<open>min\<close> are those of the total).
  A \<^verbatim>\<open>dt.time\<close> is the record of its fields; the code reads its hour, minute and
  second only.

  A \<^verbatim>\<open>dt.datetime\<close> is the record of its calendar date, its four time fields and its
  \<^verbatim>\<open>tzinfo\<close>. The date is kept as the number \<^verbatim>\<open>date.toordinal()\<close> gives it, which
  orders dates as (year, month, day) does: day 1 is 0001-01-01 and day 3652059 is
  9999-12-31, the first and the last date a datetime can hold. The \<^verbatim>\<open>tzinfo\<close> is
  \<open>None\<close> for a naive datetime and the offset from UTC for an aware one: pydantic reads
  a time stamp of \<^verbatim>\<open>meta.json\<close> that ends in \<^verbatim>\<open>Z\<close> or in an offset as an aware
  datetime, and one without as a naive datetime.
\<close>

type_synonym timedelta = int

definition us_per_second :: int where
  "us_per_second = 1000000"

definition us_per_day :: int where
  "us_per_day = 86400 * 1000000"

definition seconds :: "int \<Rightarrow> timedelta" where
  "seconds n = n * us_per_second"

definition MINORDINAL :: int where
  "MINORDINAL = 1"

definition MAXORDINAL :: int where
  "MAXORDINAL = 3652059"

record time_of_day =
  t_hour :: nat
  t_minute :: nat
  t_second :: nat
  t_microsecond :: nat

record datetime =
  dt_day :: int
  dt_hour :: nat
  dt_minute :: nat
  dt_second :: nat
  dt_microsecond :: nat
  dt_tzinfo :: "timedelta option"

text \<open>
  What the wall clock shows when it is read, and \<^verbatim>\<open>dt.datetime.now()\<close>: called
  with no time zone, it returns the reading as a naive datetime.
\<close>

record clock_reading =
  c_day :: int
  c_hour :: nat
  c_minute :: nat
  c_second :: nat
  c_microsecond :: nat

definition datetime_now :: "clock_reading \<Rightarrow> datetime" where
  "datetime_now c =
     \<lparr>dt_day = c_day c, dt_hour = c_hour c, dt_minute = c_minute c, dt_second = c_second c,
      dt_microsecond = c_microsecond c, dt_tzinfo = None\<rparr>"

text \<open>
  The instant that the date and time fields of a datetime spell, in microseconds from
  the start of day 0, and the datetime with a given \<^verbatim>\<open>tzinfo\<close> whose fields spell a
  given instant.
\<close>

definition to_us :: "datetime \<Rightarrow> int" where
  "to_us d =
     dt_day d * us_per_day
     + (int (dt_hour d) * 3600 + int (dt_minute d) * 60 + int (dt_second d)) * us_per_second
     + int (dt_microsecond d)"

definition of_us :: "timedelta option \<Rightarrow> int \<Rightarrow> datetime" where
  "of_us tz n =
     (let r = nat (n mod us_per_day); s = r div 1000000
      in \<lparr>dt_day = n div us_per_day, dt_hour = s div 3600, dt_minute = (s div 60) mod 60,
          dt_second = s mod 60, dt_microsecond = r mod 1000000, dt_tzinfo = tz\<rparr>)"

text \<open>An instant is representable when its date is one a datetime can hold.\<close>

definition representable :: "int \<Rightarrow> bool" where
  "representable n \<longleftrightarrow> MINORDINAL \<le> n div us_per_day \<and> n div us_per_day \<le> MAXORDINAL"

text \<open>
  \<^verbatim>\<open>datetime + timedelta\<close>: the fields move by the duration and the \<^verbatim>\<open>tzinfo\<close> is
  kept; \<^verbatim>\<open>OverflowError\<close> is raised when the date of the sum is out of range.
\<close>

definition dt_add :: "datetime \<Rightarrow> timedelta \<Rightarrow> datetime result" where
  "dt_add d delta =
     (let n = to_us d + delta
      in if representable n then Inr (of_us (dt_tzinfo d) n) else Inl OverflowError)"

text \<open>
  \<^verbatim>\<open>datetime > datetime\<close> and \<^verbatim>\<open>datetime - datetime\<close>: two naive datetimes are
  compared and subtracted by their fields, two aware ones by their instants in UTC, and
  \<^verbatim>\<open>TypeError\<close> is raised when one is naive and the other aware.
\<close>

definition dt_gt :: "datetime \<Rightarrow> datetime \<Rightarrow> bool result" where
  "dt_gt a b =
     (case dt_tzinfo a of
        None \<Rightarrow>
          (case dt_tzinfo b of
             None \<Rightarrow> Inr (to_us a > to_us b)
           | Some ob \<Rightarrow> Inl TypeError)
      | Some oa \<Rightarrow>
          (case dt_tzinfo b of
             None \<Rightarrow> Inl TypeError
           | Some ob \<Rightarrow> Inr (to_us a - oa > to_us b - ob)))"

definition dt_diff :: "datetime \<Rightarrow> datetime \<Rightarrow> timedelta result" where
  "dt_diff a b =
     (case dt_tzinfo a of
        None \<Rightarrow>
          (case dt_tzinfo b of
             None \<Rightarrow> Inr (to_us a - to_us b)
           | Some ob \<Rightarrow> Inl TypeError)
      | Some oa \<Rightarrow>
          (case dt_tzinfo b of
             None \<Rightarrow> Inl TypeError
           | Some ob \<Rightarrow> Inr ((to_us a - oa) - (to_us b - ob))))"

text \<open>
  \<^verbatim>\<open>d.replace(hour=h, minute=m, second=s, microsecond=us)\<close>: the date and the
  \<^verbatim>\<open>tzinfo\<close> are kept, the four fields are overwritten.
\<close>

definition dt_replace :: "datetime \<Rightarrow> nat \<Rightarrow> nat \<Rightarrow> nat \<Rightarrow> nat \<Rightarrow> datetime" where
  "dt_replace d h m s us =
     d\<lparr>dt_hour := h, dt_minute := m, dt_second := s, dt_microsecond := us\<rparr>"

text \<open>A date combined with a time of day: the naive datetime with every field of both.\<close>

definition combine :: "int \<Rightarrow> time_of_day \<Rightarrow> datetime" where
  "combine day t =
     \<lparr>dt_day = day, dt_hour = t_hour t, dt_minute = t_minute t, dt_second = t_second t,
      dt_microsecond = t_microsecond t, dt_tzinfo = None\<rparr>"

text \<open>A time of day cut to its whole second.\<close>

definition drop_microsecond :: "time_of_day \<Rightarrow> time_of_day" where
  "drop_microsecond t = t\<lparr>t_microsecond := 0\<rparr>"

subsection \<open>The time scheduler (lines 15 to 24)\<close>

text \<open>
  \<^verbatim>\<open>
  def next_upload_time(last_upload_time, upload_time, upload_delay):
      next_upload = (dt.datetime.now()
                     .replace(hour=upload_time.hour, minute=upload_time.minute,
                              second=upload_time.second, microsecond=0)
                     + upload_delay)
      if last_upload_time is not None:
          potential_next_upload = last_upload_time + upload_delay
          if potential_next_upload > next_upload:
              next_upload = potential_next_upload
      return next_upload
  \<close>
  The reading of the clock is the first argument. Each of the two sums may raise
  \<^verbatim>\<open>OverflowError\<close> and the comparison \<^verbatim>\<open>TypeError\<close>, in the order of the source.
\<close>

definition next_upload_time ::
  "clock_reading \<Rightarrow> datetime option \<Rightarrow> time_of_day \<Rightarrow> timedelta \<Rightarrow> datetime result" where
  "next_upload_time clock last_upload_time upload_time upload_delay =
     (case dt_add (dt_replace (datetime_now clock) (t_hour upload_time) (t_minute upload_time)
                     (t_second upload_time) 0) upload_delay of
        Inl x \<Rightarrow> Inl x
      | Inr next_upload \<Rightarrow>
          (case last_upload_time of
             None \<Rightarrow> Inr next_upload
           | Some last_upload \<Rightarrow>
               (case dt_add last_upload upload_delay of
                  Inl x \<Rightarrow> Inl x
                | Inr potential_next_upload \<Rightarrow>
                    (case dt_gt potential_next_upload next_upload of
                       Inl x \<Rightarrow> Inl x
                     | Inr b \<Rightarrow> Inr (if b then potential_next_upload else next_upload)))))"

text \<open>
  The scheduler as the specification words it: the candidate is today's date combined
  with the target time of day, plus the minimum delay; the floor
  \<open>lastUploadTime + minDelay\<close> replaces it when it is strictly greater. Both are
  instants, counted in microseconds as \<open>to_us\<close> does.
\<close>

definition spec_candidate :: "clock_reading \<Rightarrow> time_of_day \<Rightarrow> timedelta \<Rightarrow> int" where
  "spec_candidate clock target min_delay = to_us (combine (c_day clock) target) + min_delay"

definition spec_floor :: "datetime \<Rightarrow> timedelta \<Rightarrow> int" where
  "spec_floor last_upload min_delay = to_us last_upload + min_delay"

definition spec_next_upload_time ::
  "clock_reading \<Rightarrow> datetime option \<Rightarrow> time_of_day \<Rightarrow> timedelta \<Rightarrow> int" where
  "spec_next_upload_time clock last_upload target min_delay =
     (case last_upload of
        None \<Rightarrow> spec_candidate clock target min_delay
      | Some l \<Rightarrow>
          if spec_floor l min_delay > spec_candidate clock target min_delay
          then spec_floor l min_delay
          else spec_candidate clock target min_delay)"

subsection \<open>Python's \<^verbatim>\<open>str\<close> and \<^verbatim>\<open>int\<close> on directory names\<close>

definition digit_char :: "nat \<Rightarrow> char" where
  "digit_char n = char_of (48 + n)"

fun digits :: "nat \<Rightarrow> string" where
  "digits n = (if n < 10 then [digit_char n] else digits (n div 10) @ [digit_char (n mod 10)])"

declare digits.simps [simp del]

text \<open>\<^verbatim>\<open>str(id)\<close>: the decimal numeral, with a minus sign for a negative integer.\<close>

definition py_str :: "int \<Rightarrow> string" where
  "py_str i = (if i < 0 then CHR ''-'' # digits (nat (- i)) else digits (nat i))"

definition is_digit :: "char \<Rightarrow> bool" where
  "is_digit c \<longleftrightarrow> 48 \<le> (of_char c :: nat) \<and> (of_char c :: nat) \<le> 57"

definition digit_val :: "char \<Rightarrow> nat" where
  "digit_val c = of_char c - 48"

definition is_space :: "char \<Rightarrow> bool" where
  "is_space c \<longleftrightarrow> (of_char c :: nat) \<in> {9, 10, 11, 12, 13, 32, 133, 160}"

text \<open>
  The digits of an integer literal, most significant first; a single underscore may
  stand between two digits.
\<close>

fun parse_digits :: "string \<Rightarrow> nat \<Rightarrow> nat option" where
  "parse_digits [] acc = Some acc"
| "parse_digits (c # cs) acc =
     (if c = CHR ''_'' then
        (case cs of
           [] \<Rightarrow> None
         | d # _ \<Rightarrow> if is_digit d then parse_digits cs acc else None)
      else if is_digit c then parse_digits cs (10 * acc + digit_val c)
      else None)"

definition parse_body :: "string \<Rightarrow> nat option" where
  "parse_body s =
     (case s of [] \<Rightarrow> None | c # _ \<Rightarrow> if is_digit c then parse_digits s 0 else None)"

definition strip :: "string \<Rightarrow> string" where
  "strip s = rev (dropWhile is_space (rev (dropWhile is_space s)))"

text \<open>
  \<^verbatim>\<open>int(name)\<close>: surrounding white space is dropped, one sign is allowed, the rest
  is \<open>parse_body\<close>; anything else raises \<^verbatim>\<open>ValueError\<close>. A name is a string of
  characters with code points below 256; among these the decimal digits are
  \<^verbatim>\<open>0\<close> to \<^verbatim>\<open>9\<close> and the white space is the ASCII white space, U+0085 and U+00A0.
  (Python also reads the decimal digits of other scripts.)
\<close>

definition py_int :: "string \<Rightarrow> int result" where
  "py_int s =
     (case strip s of
        [] \<Rightarrow> Inl ValueError
      | c # cs \<Rightarrow>
          if c = CHR ''-'' then
            (case parse_body cs of None \<Rightarrow> Inl ValueError | Some n \<Rightarrow> Inr (- int n))
          else if c = CHR ''+'' then
            (case parse_body cs of None \<Rightarrow> Inl ValueError | Some n \<Rightarrow> Inr (int n))
          else
            (case parse_body (c # cs) of None \<Rightarrow> Inl ValueError | Some n \<Rightarrow> Inr (int n)))"

subsection \<open>The data model (lines 27 to 47 and 83 to 87)\<close>

text \<open>
  A Python \<^verbatim>\<open>float\<close> is a finite real, an infinity or a NaN. The code only compares
  a coordinate with \<^verbatim>\<open>0.\<close>: both zeros of the floats equal it, a NaN and the
  infinities differ from it.
\<close>

datatype pyfloat = Finite real | PosInf | NegInf | NaN

fun float_ne_zero :: "pyfloat \<Rightarrow> bool" where
  "float_ne_zero (Finite r) = (r \<noteq> 0)"
| "float_ne_zero PosInf = True"
| "float_ne_zero NegInf = True"
| "float_ne_zero NaN = True"

text \<open>\<^verbatim>\<open>x != 0.\<close> on an \<^verbatim>\<open>Optional[float]\<close>: \<^verbatim>\<open>None != 0.\<close> is \<^verbatim>\<open>True\<close>.\<close>

fun ne_zero :: "pyfloat option \<Rightarrow> bool" where
  "ne_zero None = True"
| "ne_zero (Some x) = float_ne_zero x"

record InstaUploadMeta =
  caption :: string
  loc_lat :: "pyfloat option"
  loc_long :: "pyfloat option"
  upload_at :: "datetime option"

record InstaUpload =
  upload_id :: int
  meta :: InstaUploadMeta
  images :: "string list"

text \<open>
  The configuration. Its two paths, \<^verbatim>\<open>unprocessed_dir_fp\<close> and
  \<^verbatim>\<open>processed_dir_fp\<close>, name the two directories of the world below.
\<close>

record Config =
  default_upload_delta :: timedelta
  default_upload_time :: time_of_day
  check_interval :: timedelta

definition NEW_OFFSET :: int where
  "NEW_OFFSET = 1"

subsection \<open>The directories\<close>

text \<open>
  What a queue directory holds under one name: a regular file, or a directory, of which
  two members matter. Its \<^verbatim>\<open>meta.json\<close> is absent, or cannot be opened or read (with
  the exception that says so), or is rejected by pydantic, or parses to metadata. Its
  \<^verbatim>\<open>ims\<close> is absent, or cannot be listed (it is a regular file, say), or is a
  directory with a listing. A queue directory is the list of its entries in the order in
  which \<^verbatim>\<open>os.listdir\<close> enumerates them; the two queue directories are different
  directories, and both exist (\<^verbatim>\<open>startup\<close> creates them).
\<close>

datatype meta_blob = Missing | Unreadable exn | Malformed | Parsed InstaUploadMeta

datatype ims_state = NoIms | Unlistable exn | Ims "string list"

record upload_dir =
  meta_file :: meta_blob
  ims_dir :: ims_state

datatype node = RegularFile | Directory upload_dir

type_synonym dirtree = "(string \<times> node) list"

definition listdir :: "dirtree \<Rightarrow> string list" where
  "listdir t = map fst t"

subsection \<open>The post repository (lines 49 to 80)\<close>

text \<open>
  \<^verbatim>\<open>
  def load_from_dir(id, parent_dir):
      dir = os.path.join(parent_dir, str(id))
      meta = InstaUploadMeta.from_fp(os.path.join(dir, InstaUpload.META_FP))
      ims = list(os.listdir(os.path.join(dir, InstaUpload.IM_DIR)))
      return InstaUpload(id=id, meta=meta, images=ims)
  \<close>
\<close>

definition load_from_dir :: "int \<Rightarrow> dirtree \<Rightarrow> InstaUpload result" where
  "load_from_dir i parent_dir =
     (case map_of parent_dir (py_str i) of
        None \<Rightarrow> Inl FileNotFoundError
      | Some RegularFile \<Rightarrow> Inl NotADirectoryError
      | Some (Directory d) \<Rightarrow>
          (case meta_file d of
             Missing \<Rightarrow> Inl FileNotFoundError
           | Unreadable x \<Rightarrow> Inl x
           | Malformed \<Rightarrow> Inl ValidationError
           | Parsed m \<Rightarrow>
               (case ims_dir d of
                  NoIms \<Rightarrow> Inl FileNotFoundError
                | Unlistable x \<Rightarrow> Inl x
                | Ims ims \<Rightarrow> Inr \<lparr>upload_id = i, meta = m, images = ims\<rparr>)))"

text \<open>
  \<^verbatim>\<open>
  def load_all_from_parent_dir(dir_fp):
      uploads = []
      for upload_fp in os.listdir(dir_fp):
          id = int(upload_fp)
          uploads.append(InstaUpload.load_from_dir(id, dir_fp))
      uploads.sort(key=lambda x: x.id)
      return uploads
  \<close>
  The loop is \<open>load_loop\<close>, over the names still to visit and the uploads appended
  so far; \<open>load_entry\<close> is its body. \<^verbatim>\<open>list.sort\<close> is stable, as \<open>sort_key\<close> is.
\<close>

definition load_entry :: "dirtree \<Rightarrow> string \<Rightarrow> InstaUpload result" where
  "load_entry dir_fp upload_fp =
     (case py_int upload_fp of
        Inl x \<Rightarrow> Inl x
      | Inr i \<Rightarrow> load_from_dir i dir_fp)"

fun load_loop :: "dirtree \<Rightarrow> string list \<Rightarrow> InstaUpload list \<Rightarrow> InstaUpload list result" where
  "load_loop dir_fp [] uploads = Inr uploads"
| "load_loop dir_fp (upload_fp # fps) uploads =
     (case load_entry dir_fp upload_fp of
        Inl x \<Rightarrow> Inl x
      | Inr u \<Rightarrow> load_loop dir_fp fps (uploads @ [u]))"

definition load_all_from_parent_dir :: "dirtree \<Rightarrow> InstaUpload list result" where
  "load_all_from_parent_dir dir_fp =
     (case load_loop dir_fp (listdir dir_fp) [] of
        Inl x \<Rightarrow> Inl x
      | Inr uploads \<Rightarrow> Inr (sort_key upload_id uploads))"

text \<open>
  \<^verbatim>\<open>
  def validate_post(self):
      return len(self.images) > 0 and self.meta.loc_lat != 0. and self.meta.loc_long != 0.
  \<close>
\<close>

definition validate_post :: "InstaUpload \<Rightarrow> bool" where
  "validate_post u \<longleftrightarrow>
     length (images u) > 0 \<and> ne_zero (loc_lat (meta u)) \<and> ne_zero (loc_long (meta u))"

text \<open>
  The validation rule as the specification words it: the image list is non-empty and
  both coordinates are non-zero, where a null coordinate counts as non-zero (a record
  with one image and both coordinates null is accepted).
\<close>

definition spec_non_zero :: "pyfloat option \<Rightarrow> bool" where
  "spec_non_zero c \<longleftrightarrow> c \<noteq> Some (Finite 0)"

definition spec_validate :: "InstaUpload \<Rightarrow> bool" where
  "spec_validate u \<longleftrightarrow>
     images u \<noteq> [] \<and> spec_non_zero (loc_lat (meta u)) \<and> spec_non_zero (loc_long (meta u))"

text \<open>
  \<^verbatim>\<open>
  def write_empty_upload(dir_fp, newest_upload, cfg):
      upload_at = next_upload_time(
          newest_upload.meta.upload_at if newest_upload is not None else None,
          cfg.default_upload_time, cfg.default_upload_delta)
      new_id = newest_upload.id + InstaUpload.NEW_OFFSET if newest_upload is not None else 0
      meta = InstaUploadMeta(caption="", loc_lat=0., loc_long=0., upload_at=upload_at)
      os.makedirs(os.path.join(dir_fp, str(new_id), InstaUpload.IM_DIR))
      with open(os.path.join(dir_fp, str(new_id), InstaUpload.META_FP), "w") as f:
          f.write(meta.model_dump_json(indent=2))
  \<close>
  The scheduler runs first, and what it raises leaves the function before anything is
  created. \<^verbatim>\<open>os.makedirs\<close> raises when the \<^verbatim>\<open>ims\<close> directory is already there or
  when the record's name is that of a regular file, and creates what is missing
  otherwise; the metadata written is read back as it was. The operating system may
  refuse either step: \<open>new_env\<close> holds, with the reading of the clock, the exception it
  answers with, if any, before anything is created or written.
\<close>

record new_env =
  new_clock :: clock_reading
  makedirs_error :: "exn option"
  write_error :: "exn option"

definition new_id :: "InstaUpload option \<Rightarrow> int" where
  "new_id newest_upload =
     (case newest_upload of None \<Rightarrow> 0 | Some u \<Rightarrow> upload_id u + NEW_OFFSET)"

definition empty_meta :: "datetime \<Rightarrow> InstaUploadMeta" where
  "empty_meta sched =
     \<lparr>caption = [], loc_lat = Some (Finite 0), loc_long = Some (Finite 0), upload_at = Some sched\<rparr>"

text \<open>The entry of a name is replaced where it stands; a new name comes last.\<close>

fun put_entry :: "string \<Rightarrow> node \<Rightarrow> dirtree \<Rightarrow> dirtree" where
  "put_entry name v [] = [(name, v)]"
| "put_entry name v ((n, d) # t) =
     (if n = name then (name, v) # t else (n, d) # put_entry name v t)"

definition makedirs :: "new_env \<Rightarrow> string \<Rightarrow> dirtree \<Rightarrow> unit result \<times> dirtree" where
  "makedirs e name t =
     (case map_of t name of
        None \<Rightarrow>
          (case makedirs_error e of
             Some x \<Rightarrow> (Inl x, t)
           | None \<Rightarrow>
               (Inr (), put_entry name (Directory \<lparr>meta_file = Missing, ims_dir = Ims []\<rparr>) t))
      | Some RegularFile \<Rightarrow> (Inl NotADirectoryError, t)
      | Some (Directory d) \<Rightarrow>
          (case ims_dir d of
             NoIms \<Rightarrow>
               (case makedirs_error e of
                  Some x \<Rightarrow> (Inl x, t)
                | None \<Rightarrow> (Inr (), put_entry name (Directory (d\<lparr>ims_dir := Ims []\<rparr>)) t))
           | Unlistable x \<Rightarrow> (Inl FileExistsError, t)
           | Ims ims \<Rightarrow> (Inl FileExistsError, t)))"

definition write_meta ::
  "new_env \<Rightarrow> string \<Rightarrow> InstaUploadMeta \<Rightarrow> dirtree \<Rightarrow> unit result \<times> dirtree" where
  "write_meta e name m t =
     (case write_error e of
        Some x \<Rightarrow> (Inl x, t)
      | None \<Rightarrow>
          (case map_of t name of
             None \<Rightarrow> (Inl FileNotFoundError, t)
           | Some RegularFile \<Rightarrow> (Inl NotADirectoryError, t)
           | Some (Directory d) \<Rightarrow>
               (Inr (), put_entry name (Directory (d\<lparr>meta_file := Parsed m\<rparr>)) t)))"

definition write_empty_upload ::
  "new_env \<Rightarrow> dirtree \<Rightarrow> InstaUpload option \<Rightarrow> Config \<Rightarrow> unit result \<times> dirtree" where
  "write_empty_upload e dir_fp newest_upload cfg =
     (case next_upload_time (new_clock e)
             (case newest_upload of None \<Rightarrow> None | Some u \<Rightarrow> upload_at (meta u))
             (default_upload_time cfg) (default_upload_delta cfg) of
        Inl x \<Rightarrow> (Inl x, dir_fp)
      | Inr sched \<Rightarrow>
          (let name = py_str (new_id newest_upload)
           in case makedirs e name dir_fp of
                (Inl x, t) \<Rightarrow> (Inl x, t)
              | (Inr _, t) \<Rightarrow> write_meta e name (empty_meta sched) t))"

subsection \<open>The world and its environment\<close>

datatype client_call =
    Login
  | LocationSearch pyfloat pyfloat
  | LocationComplete
  | PhotoUpload int string string bool
      \<comment> \<open>record id, image name, caption, whether a location is attached\<close>
  | AlbumUpload int "string list" string bool

datatype event =
    NoUploads            \<comment> \<open>\<^verbatim>\<open>No uploads to process\<close>\<close>
  | UploadNotReady       \<comment> \<open>\<^verbatim>\<open>Upload not ready\<close>\<close>
  | InvalidPost          \<comment> \<open>\<^verbatim>\<open>Invalid post. ...\<close>\<close>
  | ErrorUploading exn   \<comment> \<open>\<^verbatim>\<open>Error uploading: ...\<close>\<close>
  | SleepingFor timedelta

record world =
  unprocessed_dir :: dirtree
  processed_dir :: dirtree
  calls :: "client_call list"
  printed :: "event list"
  slept :: "timedelta list"

text \<open>
  What the outside decides during one dispatch cycle: the two readings of the clock
  (lines 139 and 141) and, for each call that leaves the program, the exception it
  raises, if any. Printing is taken to succeed, and every exception is an
  \<^verbatim>\<open>Exception\<close> (no \<^verbatim>\<open>KeyboardInterrupt\<close> arrives).
\<close>

record env =
  clock_due :: clock_reading
  clock_wait :: clock_reading
  getenv_error :: "exn option"
  login_error :: "exn option"
  location_search_error :: "exn option"
  location_complete_error :: "exn option"
  media_upload_error :: "exn option"
  rename_error :: "exn option"
  sleep_error :: "exn option"

definition print_event :: "event \<Rightarrow> world \<Rightarrow> world" where
  "print_event ev w = w\<lparr>printed := printed w @ [ev]\<rparr>"

definition client_call :: "client_call \<Rightarrow> exn option \<Rightarrow> world \<Rightarrow> unit result \<times> world" where
  "client_call c err w =
     ((case err of None \<Rightarrow> Inr () | Some x \<Rightarrow> Inl x), w\<lparr>calls := calls w @ [c]\<rparr>)"

text \<open>
  \<^verbatim>\<open>os.rename(unprocessed/name, processed/name)\<close>: one step of the file system, which
  moves the whole entry or raises and moves nothing. As on POSIX systems, the entry
  takes the place of a target that is an empty directory (a regular file, when the entry
  is one), and any other existing target makes the call raise; a record directory holds
  nothing besides \<^verbatim>\<open>meta.json\<close> and \<^verbatim>\<open>ims\<close>.
\<close>

definition replaceable :: "node \<Rightarrow> node \<Rightarrow> bool" where
  "replaceable src dst \<longleftrightarrow>
     (case src of
        RegularFile \<Rightarrow> dst = RegularFile
      | Directory d \<Rightarrow> dst = Directory \<lparr>meta_file = Missing, ims_dir = NoIms\<rparr>)"

definition remove_entry :: "string \<Rightarrow> dirtree \<Rightarrow> dirtree" where
  "remove_entry name t = filter (\<lambda>(n, d). n \<noteq> name) t"

definition os_rename :: "env \<Rightarrow> string \<Rightarrow> world \<Rightarrow> unit result \<times> world" where
  "os_rename e name w =
     (case rename_error e of
        Some x \<Rightarrow> (Inl x, w)
      | None \<Rightarrow>
          (case map_of (unprocessed_dir w) name of
             None \<Rightarrow> (Inl FileNotFoundError, w)
           | Some src \<Rightarrow>
               (case map_of (processed_dir w) name of
                  None \<Rightarrow>
                    (Inr (),
                     w\<lparr>unprocessed_dir := remove_entry name (unprocessed_dir w),
                       processed_dir := processed_dir w @ [(name, src)]\<rparr>)
                | Some dst \<Rightarrow>
                    if replaceable src dst then
                      (Inr (),
                       w\<lparr>unprocessed_dir := remove_entry name (unprocessed_dir w),
                         processed_dir := put_entry name src (processed_dir w)\<rparr>)
                    else (Inl OSError, w))))"

text \<open>
  \<^verbatim>\<open>time.sleep(d.total_seconds())\<close>: a negative length raises \<^verbatim>\<open>ValueError\<close>; the
  platform may refuse another one (a length beyond the range of its clock raises
  \<^verbatim>\<open>OverflowError\<close> or \<^verbatim>\<open>OSError\<close>), with the exception the environment holds.
\<close>

definition time_sleep :: "env \<Rightarrow> timedelta \<Rightarrow> world \<Rightarrow> unit result \<times> world" where
  "time_sleep e d w =
     (if d < 0 then (Inl ValueError, w)
      else case sleep_error e of
             Some x \<Rightarrow> (Inl x, w)
           | None \<Rightarrow> (Inr (), w\<lparr>slept := slept w @ [d]\<rparr>))"

subsection \<open>The Instagram client (lines 95 to 127)\<close>

text \<open>
  \<^verbatim>\<open>
  def upload_post(self, upload):
      loc = None
      if upload.meta.loc_lat is not None and upload.meta.loc_long is not None:
          loc = self.client.location_search(upload.meta.loc_lat, upload.meta.loc_long)[0]
          loc = self.client.location_complete(loc)
      paths = [Path(os.path.join(...)) for im in upload.images]
      if len(paths) == 1:
          self.client.photo_upload(path=paths[0], caption=upload.meta.caption, location=loc)
      else:
          self.client.album_upload(paths=paths, caption=upload.meta.caption, location=loc)
  \<close>
  \<open>resolve_location\<close> is the first \<^verbatim>\<open>if\<close>; it returns whether a location was found.
\<close>

definition resolve_location :: "env \<Rightarrow> InstaUpload \<Rightarrow> world \<Rightarrow> bool result \<times> world" where
  "resolve_location e upload w =
     (case loc_lat (meta upload) of
        None \<Rightarrow> (Inr False, w)
      | Some la \<Rightarrow>
          (case loc_long (meta upload) of
             None \<Rightarrow> (Inr False, w)
           | Some lo \<Rightarrow>
               (case client_call (LocationSearch la lo) (location_search_error e) w of
                  (Inl x, w1) \<Rightarrow> (Inl x, w1)
                | (Inr _, w1) \<Rightarrow>
                    (case client_call LocationComplete (location_complete_error e) w1 of
                       (Inl x, w2) \<Rightarrow> (Inl x, w2)
                     | (Inr _, w2) \<Rightarrow> (Inr True, w2)))))"

definition upload_post :: "env \<Rightarrow> InstaUpload \<Rightarrow> world \<Rightarrow> unit result \<times> world" where
  "upload_post e upload w =
     (case resolve_location e upload w of
        (Inl x, w1) \<Rightarrow> (Inl x, w1)
      | (Inr loc, w1) \<Rightarrow>
          if length (images upload) = 1
          then client_call
                 (PhotoUpload (upload_id upload) (images upload ! 0) (caption (meta upload)) loc)
                 (media_upload_error e) w1
          else client_call
                 (AlbumUpload (upload_id upload) (images upload) (caption (meta upload)) loc)
                 (media_upload_error e) w1)"

text \<open>
  \<^verbatim>\<open>InstaClient(cfg, *InstaClient.get_env_uname_pwd())\<close>: the environment variables
  are read and decoded first, then the constructor logs in.
\<close>

definition InstaClient :: "env \<Rightarrow> world \<Rightarrow> unit result \<times> world" where
  "InstaClient e w =
     (case getenv_error e of
        Some x \<Rightarrow> (Inl x, w)
      | None \<Rightarrow> client_call Login (login_error e) w)"

subsection \<open>The dispatch cycle (lines 132 to 156)\<close>

text \<open>
  \<^verbatim>\<open>
  def try_upload(cfg) -> Optional[SleepFor]:
      unprocessed = InstaUpload.load_all_from_parent_dir(cfg.unprocessed_dir_fp)
      if len(unprocessed) == 0:
          print("No uploads to process")
          return None
      upload = unprocessed[0]
      if upload.meta.upload_at > dt.datetime.now():
          print("Upload not ready")
          return upload.meta.upload_at - dt.datetime.now() + dt.timedelta(seconds=1)
      if not upload.validate_post():
          print("Invalid post. ...")
          return None
      cli = InstaClient(cfg, *InstaClient.get_env_uname_pwd())
      try:
          cli.upload_post(upload)
          os.rename(os.path.join(cfg.unprocessed_dir_fp, str(upload.id)),
                    os.path.join(cfg.processed_dir_fp, str(upload.id)))
      except Exception as e:
          print(f"Error uploading: {e}")
          return None
  \<close>
  The comparison of line 139 raises \<^verbatim>\<open>TypeError\<close> when \<^verbatim>\<open>upload_at\<close> is \<^verbatim>\<open>None\<close>
  or aware: the clock reading is naive.
  \<open>Inl x\<close> is an exception that leaves the function, \<open>Inr None\<close> the return of
  \<^verbatim>\<open>None\<close> (also by reaching the end of the body), \<open>Inr (Some d)\<close> the return of a
  duration. \<open>publish\<close> is the body of the \<^verbatim>\<open>try\<close>.
\<close>

definition publish :: "env \<Rightarrow> InstaUpload \<Rightarrow> world \<Rightarrow> unit result \<times> world" where
  "publish e upload w =
     (case upload_post e upload w of
        (Inl x, w1) \<Rightarrow> (Inl x, w1)
      | (Inr _, w1) \<Rightarrow> os_rename e (py_str (upload_id upload)) w1)"

definition try_upload :: "Config \<Rightarrow> env \<Rightarrow> world \<Rightarrow> timedelta option result \<times> world" where
  "try_upload cfg e w =
     (case load_all_from_parent_dir (unprocessed_dir w) of
        Inl x \<Rightarrow> (Inl x, w)
      | Inr [] \<Rightarrow> (Inr None, print_event NoUploads w)
      | Inr (upload # _) \<Rightarrow>
          (case upload_at (meta upload) of
             None \<Rightarrow> (Inl TypeError, w)
           | Some sched \<Rightarrow>
               (case dt_gt sched (datetime_now (clock_due e)) of
                  Inl x \<Rightarrow> (Inl x, w)
                | Inr not_ready \<Rightarrow>
                    if not_ready then
                      (case dt_diff sched (datetime_now (clock_wait e)) of
                         Inl x \<Rightarrow> (Inl x, print_event UploadNotReady w)
                       | Inr d \<Rightarrow> (Inr (Some (d + seconds 1)), print_event UploadNotReady w))
                    else if \<not> validate_post upload then (Inr None, print_event InvalidPost w)
                    else
                      (case InstaClient e w of
                         (Inl x, w1) \<Rightarrow> (Inl x, w1)
                       | (Inr _, w1) \<Rightarrow>
                           (case publish e upload w1 of
                              (Inl x, w2) \<Rightarrow> (Inr None, print_event (ErrorUploading x) w2)
                            | (Inr _, w2) \<Rightarrow> (Inr None, w2))))))"


definition same_queues :: "world \<Rightarrow> world \<Rightarrow> bool" where
  "same_queues w w' \<longleftrightarrow>
     unprocessed_dir w' = unprocessed_dir w \<and> processed_dir w' = processed_dir w"

subsection \<open>The driver (lines 195 to 212)\<close>

text \<open>
  \<^verbatim>\<open>
  if args.new:
      processed = InstaUpload.load_all_from_parent_dir(cfg.processed_dir_fp)
      unprocessed = InstaUpload.load_all_from_parent_dir(cfg.unprocessed_dir_fp)
      all_posts = processed + unprocessed
      newest_upload = all_posts[-1] if len(all_posts) > 0 else None
      InstaUpload.write_empty_upload(cfg.unprocessed_dir_fp, newest_upload, cfg)
  \<close>
\<close>

definition newest_upload :: "InstaUpload list \<Rightarrow> InstaUpload list \<Rightarrow> InstaUpload option" where
  "newest_upload processed unprocessed =
     (let all_posts = processed @ unprocessed
      in if length all_posts > 0 then Some (last all_posts) else None)"

definition main_new :: "Config \<Rightarrow> new_env \<Rightarrow> world \<Rightarrow> unit result \<times> world" where
  "main_new cfg e w =
     (case load_all_from_parent_dir (processed_dir w) of
        Inl x \<Rightarrow> (Inl x, w)
      | Inr processed \<Rightarrow>
          (case load_all_from_parent_dir (unprocessed_dir w) of
             Inl x \<Rightarrow> (Inl x, w)
           | Inr unprocessed \<Rightarrow>
               (case write_empty_upload e (unprocessed_dir w)
                       (newest_upload processed unprocessed) cfg of
                  (r, t) \<Rightarrow> (r, w\<lparr>unprocessed_dir := t\<rparr>))))"

text \<open>
  Runs of \<^verbatim>\<open>--new\<close> one after the other, each in its environment; the sequence stops
  at the first run that raises.
\<close>

fun main_new_seq :: "Config \<Rightarrow> new_env list \<Rightarrow> world \<Rightarrow> unit result \<times> world" where
  "main_new_seq cfg [] w = (Inr (), w)"
| "main_new_seq cfg (e # es) w =
     (case main_new cfg e w of
        (Inl x, w1) \<Rightarrow> (Inl x, w1)
      | (Inr _, w1) \<Rightarrow> main_new_seq cfg es w1)"

text \<open>
  \<^verbatim>\<open>
  elif args.cron:
      while True:
          sleep_for = try_upload(cfg)
          if sleep_for is None:
              sleep_for = cfg.check_interval
          else:
              sleep_for = min(sleep_for, cfg.check_interval)
          print(f"Sleeping for {sleep_for}")
          time.sleep(sleep_for.total_seconds())
  \<close>
  \<open>cron_cycle\<close> is the body of the loop. The loop never ends by itself: \<open>cron\<close> runs
  it over the environments of the cycles to come, and returns \<open>Some x\<close> when the
  exception \<open>x\<close> ended the process, \<open>None\<close> when the loop is still running after the
  last of them.
\<close>

definition sleep_duration :: "Config \<Rightarrow> timedelta option \<Rightarrow> timedelta" where
  "sleep_duration cfg r =
     (case r of None \<Rightarrow> check_interval cfg | Some d \<Rightarrow> min d (check_interval cfg))"

definition cron_cycle :: "Config \<Rightarrow> env \<Rightarrow> world \<Rightarrow> unit result \<times> world" where
  "cron_cycle cfg e w =
     (case try_upload cfg e w of
        (Inl x, w1) \<Rightarrow> (Inl x, w1)
      | (Inr r, w1) \<Rightarrow>
          (let sleep_for = sleep_duration cfg r
           in time_sleep e sleep_for (print_event (SleepingFor sleep_for) w1)))"

fun cron :: "Config \<Rightarrow> env list \<Rightarrow> world \<Rightarrow> exn option \<times> world" where
  "cron cfg [] w = (None, w)"
| "cron cfg (e # es) w =
     (case cron_cycle cfg e w of
        (Inl x, w1) \<Rightarrow> (Some x, w1)
      | (Inr _, w1) \<Rightarrow> cron cfg es w1)"

subsection \<open>Example inputs\<close>

text \<open>Concrete values, used where a theorem is run on an input.\<close>

definition ex_now :: clock_reading where
  "ex_now = \<lparr>c_day = 738000, c_hour = 8, c_minute = 30, c_second = 15, c_microsecond = 42\<rparr>"

definition ex_evening :: clock_reading where
  "ex_evening = \<lparr>c_day = 738000, c_hour = 23, c_minute = 0, c_second = 0, c_microsecond = 0\<rparr>"


definition ex_earlier :: datetime where
  "ex_earlier = \<lparr>dt_day = 737999, dt_hour = 12, dt_minute = 0, dt_second = 0, dt_microsecond = 0,
     dt_tzinfo = None\<rparr>"

definition ex_tomorrow :: datetime where
  "ex_tomorrow = \<lparr>dt_day = 738001, dt_hour = 7, dt_minute = 0, dt_second = 0, dt_microsecond = 0,
     dt_tzinfo = None\<rparr>"

definition ex_aware :: datetime where
  "ex_aware = \<lparr>dt_day = 737999, dt_hour = 12, dt_minute = 0, dt_second = 0, dt_microsecond = 0,
     dt_tzinfo = Some 0\<rparr>"

definition ex_morning :: time_of_day where
  "ex_morning = \<lparr>t_hour = 6, t_minute = 0, t_second = 0, t_microsecond = 0\<rparr>"

definition ex_target :: time_of_day where
  "ex_target = \<lparr>t_hour = 12, t_minute = 0, t_second = 0, t_microsecond = 500000\<rparr>"

definition ex_meta :: "pyfloat option \<Rightarrow> pyfloat option \<Rightarrow> datetime option \<Rightarrow> InstaUploadMeta" where
  "ex_meta la lo sched = \<lparr>caption = ''hi'', loc_lat = la, loc_long = lo, upload_at = sched\<rparr>"

definition ex_dir :: "InstaUploadMeta \<Rightarrow> string list \<Rightarrow> node" where
  "ex_dir m ims = Directory \<lparr>meta_file = Parsed m, ims_dir = Ims ims\<rparr>"

definition ex_world :: "dirtree \<Rightarrow> dirtree \<Rightarrow> world" where
  "ex_world u p = \<lparr>unprocessed_dir = u, processed_dir = p, calls = [], printed = [], slept = []\<rparr>"

definition ex_env :: env where
  "ex_env = \<lparr>clock_due = ex_now, clock_wait = ex_now, getenv_error = None, login_error = None,
     location_search_error = None, location_complete_error = None, media_upload_error = None,
     rename_error = None, sleep_error = None\<rparr>"

definition ex_new_env :: new_env where
  "ex_new_env = \<lparr>new_clock = ex_now, makedirs_error = None, write_error = None\<rparr>"

definition ex_cfg :: Config where
  "ex_cfg = \<lparr>default_upload_delta = seconds 86400, default_upload_time = ex_target,
     check_interval = seconds 60\<rparr>"

text \<open>
  A world whose pending queue holds the one record \<^verbatim>\<open>1\<close>, with one image, and
  that record as it is loaded.
\<close>

definition ex_pending :: "pyfloat option \<Rightarrow> pyfloat option \<Rightarrow> datetime option \<Rightarrow> world" where
  "ex_pending la lo sched = ex_world [(''1'', ex_dir (ex_meta la lo sched) [''a.jpg''])] []"

definition ex_record :: "pyfloat option \<Rightarrow> pyfloat option \<Rightarrow> datetime option \<Rightarrow> InstaUpload" where
  "ex_record la lo sched = \<lparr>upload_id = 1, meta = ex_meta la lo sched, images = [''a.jpg'']\<rparr>"


definition ex_env_login_fails :: env where
  "ex_env_login_fails = ex_env\<lparr>login_error := Some ClientError\<rparr>"

definition ex_env_upload_fails :: env where
  "ex_env_upload_fails = ex_env\<lparr>media_upload_error := Some ClientError\<rparr>"

section \<open>Properties\<close>

subsection \<open>Time arithmetic\<close>

lemma seconds_split: "(s::nat) div 3600 * 3600 + (s div 60 mod 60) * 60 + s mod 60 = s"
proof -
  have "s mod (60 * 60) = 60 * (s div 60 mod 60) + s mod 60"
    by (rule mod_mult2_eq)
  moreover have "s div 3600 * 3600 + s mod 3600 = s"
    by (rule div_mult_mod_eq)
  ultimately show ?thesis
    by simp
qed

text \<open>Splitting an instant into the fields of a datetime loses nothing.\<close>

lemma to_us_of_us: "to_us (of_us tz n) = n"
proof -
  define r where "r = nat (n mod us_per_day)"
  define s where "s = r div 1000000"
  have r: "int r = n mod us_per_day"
    by (simp add: r_def us_per_day_def)
  have fields: "dt_day (of_us tz n) = n div us_per_day" "dt_hour (of_us tz n) = s div 3600"
    "dt_minute (of_us tz n) = s div 60 mod 60" "dt_second (of_us tz n) = s mod 60"
    "dt_microsecond (of_us tz n) = r mod 1000000"
    by (simp_all add: of_us_def Let_def r_def s_def)
  have "s div 3600 * 3600 + (s div 60 mod 60) * 60 + s mod 60 = s"
    by (rule seconds_split)
  then have "int (s div 3600 * 3600 + (s div 60 mod 60) * 60 + s mod 60) = int s"
    by (rule arg_cong)
  then have hms: "int (s div 3600) * 3600 + int (s div 60 mod 60) * 60 + int (s mod 60) = int s"
    by simp
  have "int (s * 1000000 + r mod 1000000) = int r"
    unfolding s_def by simp
  then have us: "int s * 1000000 + int (r mod 1000000) = int r"
    by simp
  have "to_us (of_us tz n) =
      n div us_per_day * us_per_day
      + (int (s div 3600) * 3600 + int (s div 60 mod 60) * 60 + int (s mod 60)) * 1000000
      + int (r mod 1000000)"
    unfolding to_us_def fields us_per_second_def ..
  also have "\<dots> = n div us_per_day * us_per_day + (int s * 1000000 + int (r mod 1000000))"
    unfolding hms by (simp only: add.assoc)
  also have "\<dots> = n div us_per_day * us_per_day + n mod us_per_day"
    by (simp only: us r)
  also have "\<dots> = n"
    by simp
  finally show ?thesis .
qed

lemma dt_tzinfo_of_us: "dt_tzinfo (of_us tz n) = tz"
  by (simp add: of_us_def Let_def)

lemma dt_add_cases:
  "dt_add d delta =
     (if representable (to_us d + delta) then Inr (of_us (dt_tzinfo d) (to_us d + delta))
      else Inl OverflowError)"
  by (simp add: dt_add_def Let_def)

lemma dt_gt_of_us:
  "dt_gt (of_us tz a) (of_us None b) = (case tz of None \<Rightarrow> Inr (a > b) | Some off \<Rightarrow> Inl TypeError)"
  by (simp add: dt_gt_def dt_tzinfo_of_us to_us_of_us split: option.splits)

subsection \<open>The time scheduler\<close>

text \<open>
  Claim C1, as stated, fails: the scheduler does not combine today's date with the whole
  target time of day. \<^verbatim>\<open>replace\<close> takes the target's hour, minute and second and sets
  the microsecond to zero, so a target of 12:00:00.5 with no last upload and no delay
  gives 12:00:00 of today, where the date combined with the target is 12:00:00.5.
\<close>

theorem next_upload_time_drops_target_microsecond:
  "next_upload_time ex_now None ex_target 0
     = Inr \<lparr>dt_day = 738000, dt_hour = 12, dt_minute = 0, dt_second = 0, dt_microsecond = 0,
            dt_tzinfo = None\<rparr>
   \<and> of_us None (spec_next_upload_time ex_now None ex_target 0)
     = \<lparr>dt_day = 738000, dt_hour = 12, dt_minute = 0, dt_second = 0, dt_microsecond = 500000,
        dt_tzinfo = None\<rparr>
   \<and> next_upload_time ex_now None ex_target 0
     \<noteq> Inr (of_us None (spec_next_upload_time ex_now None ex_target 0))"
  by (simp add: next_upload_time_def spec_next_upload_time_def spec_candidate_def dt_add_def
      dt_replace_def datetime_now_def combine_def to_us_def of_us_def representable_def
      MINORDINAL_def MAXORDINAL_def ex_now_def ex_target_def us_per_day_def us_per_second_def)

text \<open>
  Claim C1, amended. Let the candidate be today's date combined with the hour, minute
  and second of the target time of day, the microsecond set to zero, plus the delay, and
  let the floor be the last upload time plus the delay. For every clock reading, optional
  last upload time, target and delay:
  \<^item> when the date of the candidate is out of the range of dates, the scheduler raises
    \<^verbatim>\<open>OverflowError\<close>;
  \<^item> otherwise, without a last upload time it returns the candidate;
  \<^item> otherwise, with a last upload time, it raises \<^verbatim>\<open>OverflowError\<close> when the date of
    the floor is out of range, else \<^verbatim>\<open>TypeError\<close> when the last upload time is aware
    of its time zone (the floor is compared with the naive candidate), else it returns
    the floor when the floor is strictly greater than the candidate and the candidate
    when it is not;
  \<^item> the result depends on the clock through its date only: no other field of the
    reading changes it.
\<close>

theorem next_upload_time_spec:
  "(\<not> representable (spec_candidate clock (drop_microsecond target) delay) \<longrightarrow>
      next_upload_time clock last_upload target delay = Inl OverflowError)
   \<and> (representable (spec_candidate clock (drop_microsecond target) delay) \<longrightarrow>
      next_upload_time clock None target delay
        = Inr (of_us None (spec_next_upload_time clock None (drop_microsecond target) delay)))
   \<and> (representable (spec_candidate clock (drop_microsecond target) delay)
        \<and> \<not> representable (spec_floor l delay) \<longrightarrow>
      next_upload_time clock (Some l) target delay = Inl OverflowError)
   \<and> (representable (spec_candidate clock (drop_microsecond target) delay)
        \<and> representable (spec_floor l delay) \<and> dt_tzinfo l \<noteq> None \<longrightarrow>
      next_upload_time clock (Some l) target delay = Inl TypeError)
   \<and> (representable (spec_candidate clock (drop_microsecond target) delay)
        \<and> representable (spec_floor l delay) \<and> dt_tzinfo l = None \<longrightarrow>
      next_upload_time clock (Some l) target delay
        = Inr (of_us None (spec_next_upload_time clock (Some l) (drop_microsecond target) delay)))
   \<and> next_upload_time
       (clock\<lparr>c_hour := h, c_minute := m, c_second := s, c_microsecond := us\<rparr>)
       last_upload target delay
     = next_upload_time clock last_upload target delay"
proof -
  let ?c = "spec_candidate clock (drop_microsecond target) delay"
  have rep: "dt_replace (datetime_now clock) (t_hour target) (t_minute target) (t_second target) 0
      = combine (c_day clock) (drop_microsecond target)"
    by (simp add: dt_replace_def datetime_now_def combine_def drop_microsecond_def)
  have rep': "dt_replace
        (datetime_now (clock\<lparr>c_hour := h, c_minute := m, c_second := s, c_microsecond := us\<rparr>))
        (t_hour target) (t_minute target) (t_second target) 0
      = combine (c_day clock) (drop_microsecond target)"
    by (simp add: dt_replace_def datetime_now_def combine_def drop_microsecond_def)
  have cand: "dt_add (combine (c_day clock) (drop_microsecond target)) delay
      = (if representable ?c then Inr (of_us None ?c) else Inl OverflowError)"
    by (simp add: dt_add_cases spec_candidate_def combine_def)
  have flr: "dt_add l delay
      = (if representable (spec_floor l delay) then Inr (of_us (dt_tzinfo l) (spec_floor l delay))
         else Inl OverflowError)"
    by (simp add: dt_add_cases spec_floor_def)
  have 1: "\<not> representable ?c \<longrightarrow>
      next_upload_time clock last_upload target delay = Inl OverflowError"
    by (simp add: next_upload_time_def rep cand)
  have 2: "representable ?c \<longrightarrow>
      next_upload_time clock None target delay
        = Inr (of_us None (spec_next_upload_time clock None (drop_microsecond target) delay))"
    by (simp add: next_upload_time_def rep cand spec_next_upload_time_def)
  have 3: "representable ?c \<and> \<not> representable (spec_floor l delay) \<longrightarrow>
      next_upload_time clock (Some l) target delay = Inl OverflowError"
    by (simp add: next_upload_time_def rep cand flr)
  have 4: "representable ?c \<and> representable (spec_floor l delay) \<and> dt_tzinfo l \<noteq> None \<longrightarrow>
      next_upload_time clock (Some l) target delay = Inl TypeError"
    by (auto simp add: next_upload_time_def rep cand flr dt_gt_of_us)
  have 5: "representable ?c \<and> representable (spec_floor l delay) \<and> dt_tzinfo l = None \<longrightarrow>
      next_upload_time clock (Some l) target delay
        = Inr (of_us None (spec_next_upload_time clock (Some l) (drop_microsecond target) delay))"
    by (simp add: next_upload_time_def rep cand flr dt_gt_of_us spec_next_upload_time_def)
  have 6: "next_upload_time
       (clock\<lparr>c_hour := h, c_minute := m, c_second := s, c_microsecond := us\<rparr>)
       last_upload target delay
     = next_upload_time clock last_upload target delay"
    by (simp add: next_upload_time_def rep rep')
  from 1 2 3 4 5 6 show ?thesis
    by blast
qed

text \<open>
  The theorem at concrete inputs. At 23:00 with a target of 06:00, no last upload and no
  delay, the result is 06:00 of the same day, which lies in the past; a last upload
  time of tomorrow 07:00 with a delay of one hour gives the floor, tomorrow 08:00; an
  aware last upload time raises \<^verbatim>\<open>TypeError\<close>; a delay of three million days raises
  \<^verbatim>\<open>OverflowError\<close>.
\<close>

theorem next_upload_time_spec_witness:
  "next_upload_time ex_evening None ex_morning 0
     = Inr \<lparr>dt_day = 738000, dt_hour = 6, dt_minute = 0, dt_second = 0, dt_microsecond = 0,
            dt_tzinfo = None\<rparr>
   \<and> dt_gt (datetime_now ex_evening)
        \<lparr>dt_day = 738000, dt_hour = 6, dt_minute = 0, dt_second = 0, dt_microsecond = 0,
         dt_tzinfo = None\<rparr> = Inr True
   \<and> next_upload_time ex_now (Some ex_tomorrow) ex_morning (seconds 3600)
     = Inr \<lparr>dt_day = 738001, dt_hour = 8, dt_minute = 0, dt_second = 0, dt_microsecond = 0,
            dt_tzinfo = None\<rparr>
   \<and> next_upload_time ex_now (Some ex_aware) ex_morning (seconds 3600) = Inl TypeError
   \<and> next_upload_time ex_now (Some ex_tomorrow) ex_morning (3000000 * us_per_day)
     = Inl OverflowError"
  using next_upload_time_spec [of ex_evening ex_morning 0 None ex_tomorrow]
    next_upload_time_spec [of ex_now ex_morning "seconds 3600" None ex_tomorrow]
    next_upload_time_spec [of ex_now ex_morning "seconds 3600" None ex_aware]
    next_upload_time_spec [of ex_now ex_morning "3000000 * us_per_day" "Some ex_tomorrow" ex_tomorrow]
  by (simp add: spec_next_upload_time_def spec_candidate_def spec_floor_def drop_microsecond_def
      combine_def to_us_def of_us_def representable_def MINORDINAL_def MAXORDINAL_def
      dt_gt_def datetime_now_def seconds_def
      ex_now_def ex_evening_def ex_morning_def ex_tomorrow_def ex_aware_def
      us_per_day_def us_per_second_def)

subsection \<open>Validation\<close>

lemma float_ne_zero_iff: "float_ne_zero x \<longleftrightarrow> x \<noteq> Finite 0"
  by (cases x) auto

lemma ne_zero_spec: "ne_zero c = spec_non_zero c"
  by (cases c) (auto simp: spec_non_zero_def float_ne_zero_iff)

text \<open>
  Claim C2. \<open>validate_post\<close> is true exactly when the image list is non-empty and both
  coordinates are non-zero (a null coordinate being non-zero). A record with no image
  is rejected whatever its location; with one image, the coordinates (0.0, 0.0) and
  (1.0, 0.0) are rejected and two null coordinates are accepted.
\<close>

theorem validate_post_spec:
  "validate_post u = spec_validate u
   \<and> \<not> validate_post \<lparr>upload_id = i, meta = m, images = []\<rparr>
   \<and> \<not> validate_post
         \<lparr>upload_id = i,
          meta = \<lparr>caption = c, loc_lat = Some (Finite 0), loc_long = Some (Finite 0),
                  upload_at = a\<rparr>,
          images = [im]\<rparr>
   \<and> \<not> validate_post
         \<lparr>upload_id = i,
          meta = \<lparr>caption = c, loc_lat = Some (Finite 1), loc_long = Some (Finite 0),
                  upload_at = a\<rparr>,
          images = [im]\<rparr>
   \<and> validate_post
       \<lparr>upload_id = i,
        meta = \<lparr>caption = c, loc_lat = None, loc_long = None, upload_at = a\<rparr>,
        images = [im]\<rparr>"
  by (simp add: validate_post_def spec_validate_def ne_zero_spec spec_non_zero_def)

text \<open>
  Claim C3, as stated, fails: a record with one image, a null latitude and the
  longitude 1.0 is accepted. \<^verbatim>\<open>None != 0.\<close> is true in Python, and nothing in
  \<open>validate_post\<close> compares the two coordinates with each other.
\<close>

theorem half_set_location_accepted:
  "validate_post
     \<lparr>upload_id = 0, meta = ex_meta None (Some (Finite 1)) None, images = [''a.jpg'']\<rparr>"
  by (simp add: validate_post_def ex_meta_def)

text \<open>
  Claim C3, amended. For every record with at least one image in which exactly one
  coordinate is null, \<open>validate_post\<close> returns whether the other coordinate differs
  from zero: the record is rejected only when the non-null coordinate is 0.0.
\<close>

theorem validate_post_half_set:
  "images u \<noteq> [] \<Longrightarrow>
   (loc_lat (meta u) = None \<and> loc_long (meta u) = Some x) \<or>
   (loc_lat (meta u) = Some x \<and> loc_long (meta u) = None) \<Longrightarrow>
   validate_post u = float_ne_zero x"
  by (auto simp: validate_post_def)

theorem validate_post_half_set_witness:
  "\<not> validate_post
       \<lparr>upload_id = 0, meta = ex_meta (Some (Finite 0)) None None, images = [''a.jpg'']\<rparr>"
  using validate_post_half_set
    [of "\<lparr>upload_id = 0, meta = ex_meta (Some (Finite 0)) None None, images = [''a.jpg'']\<rparr>"
        "Finite 0"]
  by (simp add: ex_meta_def)

subsection \<open>The dispatch cycle\<close>

text \<open>The example queue loads to its one record.\<close>

lemma py_int_1: "py_int ''1'' = Inr 1"
  by code_simp

lemma py_str_1: "py_str 1 = ''1''"
  by code_simp

lemma load_single:
  "load_all_from_parent_dir [(''1'', ex_dir m ims)] = Inr [\<lparr>upload_id = 1, meta = m, images = ims\<rparr>]"
  by (simp add: load_all_from_parent_dir_def listdir_def load_entry_def load_from_dir_def
      ex_dir_def py_int_1 py_str_1)

lemma ex_pending_load:
  "load_all_from_parent_dir (unprocessed_dir (ex_pending la lo sched)) = Inr [ex_record la lo sched]"
  by (simp add: load_single ex_pending_def ex_world_def ex_record_def)

text \<open>The cycle once the queue has loaded with a head record.\<close>

lemma try_upload_head:
  "load_all_from_parent_dir (unprocessed_dir w) = Inr (u # us) \<Longrightarrow>
   try_upload cfg e w =
     (case upload_at (meta u) of
        None \<Rightarrow> (Inl TypeError, w)
      | Some sched \<Rightarrow>
          (case dt_gt sched (datetime_now (clock_due e)) of
             Inl x \<Rightarrow> (Inl x, w)
           | Inr not_ready \<Rightarrow>
               if not_ready then
                 (case dt_diff sched (datetime_now (clock_wait e)) of
                    Inl x \<Rightarrow> (Inl x, print_event UploadNotReady w)
                  | Inr d \<Rightarrow> (Inr (Some (d + seconds 1)), print_event UploadNotReady w))
               else if \<not> validate_post u then (Inr None, print_event InvalidPost w)
               else
                 (case InstaClient e w of
                    (Inl x, w1) \<Rightarrow> (Inl x, w1)
                  | (Inr _, w1) \<Rightarrow>
                      (case publish e u w1 of
                         (Inl x, w2) \<Rightarrow> (Inr None, print_event (ErrorUploading x) w2)
                       | (Inr _, w2) \<Rightarrow> (Inr None, w2)))))"
  by (simp add: try_upload_def)



text \<open>
  What the steps of a cycle leave alone: the calls to the client touch neither queue,
  nothing but \<open>time_sleep\<close> sleeps, and a rename that raises changes nothing; a
  rename that returns has moved the whole entry.
\<close>

lemma same_queues_refl: "same_queues w w"
  by (simp add: same_queues_def)

lemma same_queues_trans: "same_queues a b \<Longrightarrow> same_queues b c \<Longrightarrow> same_queues a c"
  by (simp add: same_queues_def)

lemma same_queues_print: "same_queues w (print_event ev w)"
  by (simp add: same_queues_def print_event_def)

lemma same_queues_print_iff: "same_queues w (print_event ev w') = same_queues w w'"
  by (simp add: same_queues_def print_event_def)

lemma client_call_frame:
  "client_call c err w = (r, w') \<Longrightarrow>
   same_queues w w' \<and> slept w' = slept w \<and> printed w' = printed w"
  by (auto simp: client_call_def same_queues_def)

lemma resolve_location_frame:
  "resolve_location e u w = (r, w') \<Longrightarrow>
   same_queues w w' \<and> slept w' = slept w \<and> printed w' = printed w"
  by (auto simp: resolve_location_def client_call_def same_queues_def
      split: option.splits sum.splits prod.splits)

lemma upload_post_frame:
  "upload_post e u w = (r, w') \<Longrightarrow>
   same_queues w w' \<and> slept w' = slept w \<and> printed w' = printed w"
proof -
  assume a: "upload_post e u w = (r, w')"
  obtain r1 w1 where rl: "resolve_location e u w = (r1, w1)"
    by (cases "resolve_location e u w")
  from resolve_location_frame [OF rl]
  have f1: "same_queues w w1" "slept w1 = slept w" "printed w1 = printed w"
    by simp_all
  show ?thesis
  proof (cases r1)
    case (Inl x)
    with a rl have "w' = w1"
      by (simp add: upload_post_def)
    with f1 show ?thesis
      by simp
  next
    case (Inr loc)
    with a rl obtain c where "client_call c (media_upload_error e) w1 = (r, w')"
      by (auto simp: upload_post_def split: if_splits)
    from client_call_frame [OF this] f1 show ?thesis
      by (auto intro: same_queues_trans)
  qed
qed

lemma InstaClient_frame:
  "InstaClient e w = (r, w') \<Longrightarrow>
   same_queues w w' \<and> slept w' = slept w \<and> printed w' = printed w"
  by (auto simp: InstaClient_def client_call_def same_queues_def split: option.splits)

lemma os_rename_raises:
  "os_rename e name w = (Inl x, w') \<Longrightarrow> w' = w"
  by (auto simp: os_rename_def split: option.splits if_splits)

lemma os_rename_slept:
  "os_rename e name w = (r, w') \<Longrightarrow> slept w' = slept w \<and> printed w' = printed w \<and> calls w' = calls w"
  by (auto simp: os_rename_def split: option.splits if_splits)

lemma map_of_put_entry: "map_of (put_entry name v t) name = Some v"
  by (induction t) auto

lemma os_rename_moves:
  "os_rename e name w = (Inr (), w') \<Longrightarrow>
   \<exists>src. map_of (unprocessed_dir w) name = Some src
     \<and> unprocessed_dir w' = remove_entry name (unprocessed_dir w)
     \<and> map_of (processed_dir w') name = Some src"
  by (auto simp: os_rename_def map_of_put_entry map_add_def split: option.splits if_splits)

lemma publish_raises:
  "publish e u w = (Inl x, w') \<Longrightarrow>
   same_queues w w' \<and> slept w' = slept w \<and> printed w' = printed w"
proof -
  assume a: "publish e u w = (Inl x, w')"
  obtain r1 w1 where up: "upload_post e u w = (r1, w1)"
    by (cases "upload_post e u w")
  from upload_post_frame [OF up]
  have f1: "same_queues w w1" "slept w1 = slept w" "printed w1 = printed w"
    by simp_all
  show ?thesis
  proof (cases r1)
    case (Inl y)
    with a up have "w' = w1"
      by (simp add: publish_def)
    with f1 show ?thesis
      by simp
  next
    case (Inr y)
    with a up have "os_rename e (py_str (upload_id u)) w1 = (Inl x, w')"
      by (simp add: publish_def)
    then have "w' = w1"
      by (rule os_rename_raises)
    with f1 show ?thesis
      by simp
  qed
qed

lemma publish_frame:
  "publish e u w = (r, w') \<Longrightarrow> slept w' = slept w \<and> printed w' = printed w"
proof -
  assume a: "publish e u w = (r, w')"
  obtain r1 w1 where up: "upload_post e u w = (r1, w1)"
    by (cases "upload_post e u w")
  from upload_post_frame [OF up]
  have f1: "slept w1 = slept w" "printed w1 = printed w"
    by simp_all
  show ?thesis
  proof (cases r1)
    case (Inl y)
    with a up have "w' = w1"
      by (simp add: publish_def)
    with f1 show ?thesis
      by simp
  next
    case (Inr y)
    with a up have "os_rename e (py_str (upload_id u)) w1 = (r, w')"
      by (simp add: publish_def)
    from os_rename_slept [OF this] f1 show ?thesis
      by simp
  qed
qed

lemma publish_moves:
  "publish e u w = (Inr (), w') \<Longrightarrow>
   \<exists>src. map_of (unprocessed_dir w) (py_str (upload_id u)) = Some src
     \<and> unprocessed_dir w' = remove_entry (py_str (upload_id u)) (unprocessed_dir w)
     \<and> map_of (processed_dir w') (py_str (upload_id u)) = Some src"
proof -
  assume a: "publish e u w = (Inr (), w')"
  obtain r1 w1 where up: "upload_post e u w = (r1, w1)"
    by (cases "upload_post e u w")
  from upload_post_frame [OF up] have f1: "same_queues w w1"
    by simp
  from a up have "os_rename e (py_str (upload_id u)) w1 = (Inr (), w')"
    by (cases r1) (simp_all add: publish_def)
  from os_rename_moves [OF this] f1 show ?thesis
    by (simp add: same_queues_def)
qed

lemma try_upload_slept: "slept (snd (try_upload cfg e w)) = slept w"
proof (cases "load_all_from_parent_dir (unprocessed_dir w)")
  case (Inl x)
  then show ?thesis
    by (simp add: try_upload_def)
next
  case (Inr ups)
  show ?thesis
  proof (cases ups)
    case Nil
    with Inr show ?thesis
      by (simp add: try_upload_def print_event_def)
  next
    case (Cons u us)
    obtain r1 w1 where ic: "InstaClient e w = (r1, w1)"
      by (cases "InstaClient e w")
    obtain r2 w2 where pb: "publish e u w1 = (r2, w2)"
      by (cases "publish e u w1")
    from InstaClient_frame [OF ic] have s1: "slept w1 = slept w"
      by simp
    from publish_frame [OF pb] s1 have s2: "slept w2 = slept w"
      by simp
    from Inr Cons have "try_upload cfg e w = (case upload_at (meta u) of
        None \<Rightarrow> (Inl TypeError, w)
      | Some sched \<Rightarrow>
          (case dt_gt sched (datetime_now (clock_due e)) of
             Inl x \<Rightarrow> (Inl x, w)
           | Inr not_ready \<Rightarrow>
               if not_ready then
                 (case dt_diff sched (datetime_now (clock_wait e)) of
                    Inl x \<Rightarrow> (Inl x, print_event UploadNotReady w)
                  | Inr d \<Rightarrow> (Inr (Some (d + seconds 1)), print_event UploadNotReady w))
               else if \<not> validate_post u then (Inr None, print_event InvalidPost w)
               else
                 (case InstaClient e w of
                    (Inl x, w1) \<Rightarrow> (Inl x, w1)
                  | (Inr _, w1) \<Rightarrow>
                      (case publish e u w1 of
                         (Inl x, w2) \<Rightarrow> (Inr None, print_event (ErrorUploading x) w2)
                       | (Inr _, w2) \<Rightarrow> (Inr None, w2)))))"
      by (simp add: try_upload_head)
    with ic pb s1 s2 show ?thesis
      by (auto simp: print_event_def split: option.splits sum.splits)
  qed
qed

text \<open>
  Claim C9. When the head of the loaded queue has no \<open>upload_at\<close>, the comparison of
  line 139 raises \<^verbatim>\<open>TypeError\<close>: the cycle ends with that exception and leaves the
  world as it was (nothing is printed, no call is made to the client, neither queue
  changes), and in loop mode the exception ends the loop without a sleep. The record is
  not taken to be ready and is not published.
\<close>

theorem try_upload_null_schedule:
  "load_all_from_parent_dir (unprocessed_dir w) = Inr (u # us) \<Longrightarrow>
   upload_at (meta u) = None \<Longrightarrow>
   try_upload cfg e w = (Inl TypeError, w)
   \<and> cron_cycle cfg e w = (Inl TypeError, w)
   \<and> cron cfg (e # es) w = (Some TypeError, w)"
  by (simp add: try_upload_head cron_cycle_def)

theorem try_upload_null_schedule_witness:
  "load_all_from_parent_dir (unprocessed_dir (ex_pending None None None))
     = Inr [ex_record None None None]
   \<and> upload_at (meta (ex_record None None None)) = None
   \<and> try_upload ex_cfg ex_env (ex_pending None None None)
     = (Inl TypeError, ex_pending None None None)
   \<and> cron ex_cfg [ex_env, ex_env] (ex_pending None None None)
     = (Some TypeError, ex_pending None None None)"
  using try_upload_null_schedule
    [of "ex_pending None None None" "ex_record None None None" "[]" ex_cfg ex_env "[ex_env]"]
  by (simp add: ex_pending_load ex_record_def ex_meta_def)




end
